theory Spec2Isabelle
  imports Main
begin

section \<open>Claims documents and Python values\<close>

text \<open>
  A Python str is a sequence of Unicode code points, and \<open>len\<close>, slicing and
  \<open>split\<close> count code points. A str is therefore a list of code points, and
  \<open>ascii\<close> writes an ASCII text as one.
\<close>

type_synonym codepoint = nat

type_synonym str = "codepoint list"

definition ascii :: "string \<Rightarrow> str" where
  "ascii s = map of_char s"

text \<open>
  The userinfo response handed to the authenticators is decoded JSON. A value is
  \<open>None\<close>, a bool, a number, a str, a list or a dict with str keys. A dict is kept as
  an association list in insertion order and read with \<open>map_of\<close>. A JSON float
  behaves as \<open>JInt\<close> in every operation below (falsy when zero, hashable, neither
  iterable nor a mapping, no str methods), so it has no constructor of its own.
\<close>

datatype json =
    JNull
  | JBool bool
  | JInt int
  | JStr str
  | JList "json list"
  | JObj "(str \<times> json) list"

type_synonym user_info = "(str \<times> json) list"

text \<open>The payload of the messages the source formats into its exceptions.\<close>

datatype message =
    IdpClaimMissing
  | IdpNotPreConfigured json
  | UsernameClaimNotFound str json "str list"
  | DomainNotAllowed str
  | NoIdpsConfigured
  | KeysMustBeEntityIDs
  | NoUsernameFound str user_info

datatype error =
    HTTPError nat message
  | ValueError message
  | ValidationError
  | KeyError json
  | IndexError
  | TypeError
  | AttributeError
  | Raised string

text \<open>Python truthiness, as tested by \<open>not x\<close>, \<open>if x\<close> and \<open>any\<close>.\<close>

fun truthy :: "json \<Rightarrow> bool" where
  "truthy JNull = False"
| "truthy (JBool b) = b"
| "truthy (JInt i) = (i \<noteq> 0)"
| "truthy (JStr s) = (s \<noteq> [])"
| "truthy (JList xs) = (xs \<noteq> [])"
| "truthy (JObj kvs) = (kvs \<noteq> [])"

text \<open>\<open>d.get(k)\<close> with the default \<open>None\<close>, and \<open>d[k]\<close>, on a dict with str keys.\<close>

definition dict_get :: "user_info \<Rightarrow> str \<Rightarrow> json" where
  "dict_get d k = (case map_of d k of None \<Rightarrow> JNull | Some v \<Rightarrow> v)"

definition dict_getitem :: "user_info \<Rightarrow> str \<Rightarrow> error + json" where
  "dict_getitem d k = (case map_of d k of None \<Rightarrow> Inl (KeyError (JStr k)) | Some v \<Rightarrow> Inr v)"

subsection \<open>The str methods the authenticators call\<close>

text \<open>
  \<open>str.lower\<close> is Python's own: it follows the Unicode case mappings, is not
  computed character by character and can change the length of a text. The
  authenticators that call it take it as the argument \<open>lower\<close>.
\<close>

definition endswith :: "str \<Rightarrow> str \<Rightarrow> bool" where
  "endswith s suf = (length suf \<le> length s \<and> drop (length s - length suf) s = suf)"

text \<open>\<open>s[:-n]\<close> for \<open>n = len(...)\<close>: Python reads \<open>-0\<close> as \<open>0\<close>, the empty slice.\<close>

definition slice_to_neg :: "str \<Rightarrow> nat \<Rightarrow> str" where
  "slice_to_neg s n = (if n = 0 then [] else take (length s - n) s)"

text \<open>\<open>s.split(sep, 1)\<close> and \<open>s.split(sep)\<close> for a one-character separator.\<close>

definition split_once :: "codepoint \<Rightarrow> str \<Rightarrow> str list" where
  "split_once sep s =
     (if sep \<in> set s
      then [takeWhile (\<lambda>c. c \<noteq> sep) s, tl (dropWhile (\<lambda>c. c \<noteq> sep) s)]
      else [s])"

fun split_sep :: "codepoint \<Rightarrow> str \<Rightarrow> str list" where
  "split_sep sep [] = [[]]"
| "split_sep sep (c # cs) =
     (if c = sep then [] # split_sep sep cs
      else (case split_sep sep cs of [] \<Rightarrow> [[c]] | w # ws \<Rightarrow> (c # w) # ws))"

definition index1 :: "'a list \<Rightarrow> error + 'a" where
  "index1 xs = (case xs of _ # x # _ \<Rightarrow> Inr x | _ \<Rightarrow> Inl IndexError)"

section \<open>CILogonOAuthenticator\<close>

text \<open>
  An entry of \<open>allowed_idps\<close>, with the keys and value types that the help text of
  the trait lists (the schema file that \<open>_validate_allowed_idps\<close> loads enforces
  them; the file itself is not among the sources). A key that may be absent is an
  option, and reading an absent key with \<open>d[k]\<close> raises \<open>KeyError\<close>.
\<close>

record username_derivation_config =
  username_claim :: "str option"
  action :: "str option"
  domain :: "str option"
  prefix :: "str option"

record idp_config =
  username_derivation :: "username_derivation_config option"
  allowed_domains :: "str list option"

type_synonym allowed_idps = "(str \<times> idp_config) list"

text \<open>An entry is falsy, as a dict, when it has no key at all.\<close>

definition idp_config_truthy :: "idp_config \<Rightarrow> bool" where
  "idp_config_truthy cfg = (username_derivation cfg \<noteq> None \<or> allowed_domains cfg \<noteq> None)"

text \<open>
  \<open>self.allowed_idps.get(user_idp)\<close> and \<open>self.allowed_idps[user_idp]\<close>. The keys are
  entity IDs, which are str; a list or a dict as key is unhashable.
\<close>

fun idps_get :: "allowed_idps \<Rightarrow> json \<Rightarrow> error + idp_config option" where
  "idps_get idps (JStr s) = Inr (map_of idps s)"
| "idps_get idps (JList xs) = Inl TypeError"
| "idps_get idps (JObj kvs) = Inl TypeError"
| "idps_get idps v = Inr None"

definition idps_getitem :: "allowed_idps \<Rightarrow> json \<Rightarrow> error + idp_config" where
  "idps_getitem idps user_idp =
     (case idps_get idps user_idp of
        Inl e \<Rightarrow> Inl e
      | Inr None \<Rightarrow> Inl (KeyError user_idp)
      | Inr (Some cfg) \<Rightarrow> Inr cfg)"

text \<open>
  The two lines that open \<open>_user_info_to_unprocessed_username\<close> and
  \<open>_get_processed_username\<close>:
  \<^verbatim>\<open>user_idp = user_info["idp"]\<close>,
  \<^verbatim>\<open>username_derivation = self.allowed_idps[user_idp]["username_derivation"]\<close>.
\<close>

definition idp_username_derivation ::
  "allowed_idps \<Rightarrow> user_info \<Rightarrow> error + (json \<times> username_derivation_config)" where
  "idp_username_derivation idps user_info =
     (case dict_getitem user_info (ascii ''idp'') of
        Inl e \<Rightarrow> Inl e
      | Inr user_idp \<Rightarrow>
          (case idps_getitem idps user_idp of
             Inl e \<Rightarrow> Inl e
           | Inr cfg \<Rightarrow>
               (case username_derivation cfg of
                  None \<Rightarrow> Inl (KeyError (JStr (ascii ''username_derivation'')))
                | Some ud \<Rightarrow> Inr (user_idp, ud))))"

definition user_info_to_unprocessed_username :: "allowed_idps \<Rightarrow> user_info \<Rightarrow> error + json" where
  "user_info_to_unprocessed_username idps user_info =
     (case idp_username_derivation idps user_info of
        Inl e \<Rightarrow> Inl e
      | Inr (user_idp, ud) \<Rightarrow>
          (case username_claim ud of
             None \<Rightarrow> Inl (KeyError (JStr (ascii ''username_claim'')))
           | Some claim \<Rightarrow>
               (let username = dict_get user_info claim in
                if \<not> truthy username
                then Inl (HTTPError 500 (UsernameClaimNotFound claim user_idp (map fst user_info)))
                else Inr username)))"

text \<open>
  \<open>_get_processed_username\<close>. The username is whatever truthy value the claim held.
  On a value that is not a str, \<open>username.lower()\<close> raises \<open>AttributeError\<close> and the
  f-string of the prefix action formats it with Python's \<open>str\<close>, which is the
  parameter \<open>str_of\<close>.
\<close>

definition format_value :: "(json \<Rightarrow> str) \<Rightarrow> json \<Rightarrow> str" where
  "format_value str_of v = (case v of JStr s \<Rightarrow> s | _ \<Rightarrow> str_of v)"

definition get_processed_username ::
  "(str \<Rightarrow> str) \<Rightarrow> (json \<Rightarrow> str) \<Rightarrow> allowed_idps \<Rightarrow> json \<Rightarrow> user_info
     \<Rightarrow> error + json" where
  "get_processed_username lower str_of idps username user_info =
     (case idp_username_derivation idps user_info of
        Inl e \<Rightarrow> Inl e
      | Inr (user_idp, ud) \<Rightarrow>
          if action ud = Some (ascii ''strip_idp_domain'') then
            (case domain ud of
               None \<Rightarrow> Inl (KeyError (JStr (ascii ''domain'')))
             | Some d \<Rightarrow>
                 (let domain_suffix = ascii ''@'' @ d in
                  case username of
                    JStr u \<Rightarrow>
                      if endswith (lower u) (lower domain_suffix)
                      then Inr (JStr (slice_to_neg u (length domain_suffix)))
                      else Inr (JStr u)
                  | _ \<Rightarrow> Inl AttributeError))
          else if action ud = Some (ascii ''prefix'') then
            (case prefix ud of
               None \<Rightarrow> Inl (KeyError (JStr (ascii ''prefix'')))
             | Some p \<Rightarrow> Inr (JStr (p @ ascii '':'' @ format_value str_of username)))
          else Inr username)"

text \<open>
  \<open>user_info_to_username\<close>: the two guards on the \<open>idp\<close> claim, then the
  unprocessed username and the action on it.
\<close>

definition cilogon_user_info_to_username ::
  "(str \<Rightarrow> str) \<Rightarrow> (json \<Rightarrow> str) \<Rightarrow> allowed_idps \<Rightarrow> user_info \<Rightarrow> error + json" where
  "cilogon_user_info_to_username lower str_of idps user_info =
     (let user_idp = dict_get user_info (ascii ''idp'') in
      if \<not> truthy user_idp then Inl (HTTPError 500 IdpClaimMissing)
      else
        (case idps_get idps user_idp of
           Inl e \<Rightarrow> Inl e
         | Inr found \<Rightarrow>
             if \<not> (case found of None \<Rightarrow> False | Some cfg \<Rightarrow> idp_config_truthy cfg)
             then Inl (HTTPError 500 (IdpNotPreConfigured user_idp))
             else
               (case user_info_to_unprocessed_username idps user_info of
                  Inl e \<Rightarrow> Inl e
                | Inr unprocessed_username \<Rightarrow>
                    get_processed_username lower str_of idps unprocessed_username user_info)))"

text \<open>
  The auth model that \<open>check_allowed\<close> and \<open>update_auth_model\<close> receive:
  \<open>auth_model["admin"]\<close> is \<open>None\<close>, \<open>True\<close> or \<open>False\<close>, and \<open>auth_state\<close> stands
  for \<open>auth_model["auth_state"][self.user_auth_state_key]\<close>, the claims document.
\<close>

record auth_model =
  admin :: "bool option"
  auth_state :: user_info

text \<open>
  \<open>check_allowed\<close> of the CILogon authenticator. \<open>super().check_allowed\<close> belongs to
  the base class; its answer is the argument \<open>base_allowed\<close>.
\<close>

definition cilogon_check_allowed ::
  "(str \<Rightarrow> str) \<Rightarrow> bool \<Rightarrow> allowed_idps \<Rightarrow> auth_model \<Rightarrow> error + bool" where
  "cilogon_check_allowed lower base_allowed idps auth_model =
     (if base_allowed then Inr True
      else
        (let user_info = auth_state auth_model in
         case dict_getitem user_info (ascii ''idp'') of
           Inl e \<Rightarrow> Inl e
         | Inr user_idp \<Rightarrow>
             (case idps_getitem idps user_idp of
                Inl e \<Rightarrow> Inl e
              | Inr cfg \<Rightarrow>
                  (case allowed_domains cfg of
                     None \<Rightarrow> Inr False
                   | Some idp_allowed_domains \<Rightarrow>
                       if idp_allowed_domains = [] then Inr False
                       else
                         (case user_info_to_unprocessed_username idps user_info of
                            Inl e \<Rightarrow> Inl e
                          | Inr (JStr unprocessed_username) \<Rightarrow>
                              (case index1 (split_once (of_char CHR ''@'') unprocessed_username) of
                                 Inl e \<Rightarrow> Inl e
                               | Inr after_at \<Rightarrow>
                                   (let user_domain = lower after_at in
                                    if user_domain \<in> set idp_allowed_domains then Inr True
                                    else Inl (HTTPError 403 (DomainNotAllowed user_domain))))
                          | Inr _ \<Rightarrow> Inl AttributeError)))))"

text \<open>
  \<open>_validate_allowed_idps\<close>. The schema check of one entry (\<open>jsonschema.validate\<close>
  against the schema file) and \<open>urlparse(entity_id).scheme\<close> come from outside the
  sources and are parameters; the entries are validated as they come, whatever their
  shape, so the type of an entry is left open.
\<close>

definition accepted_entity_id_scheme :: "str list" where
  "accepted_entity_id_scheme = [ascii ''urn'', ascii ''https'', ascii ''http'']"

fun validate_entries ::
  "('cfg \<Rightarrow> bool) \<Rightarrow> (str \<Rightarrow> str) \<Rightarrow> (str \<times> 'cfg) list \<Rightarrow> error + unit" where
  "validate_entries schema_valid urlparse_scheme [] = Inr ()"
| "validate_entries schema_valid urlparse_scheme ((entity_id, idp_config) # rest) =
     (if \<not> schema_valid idp_config then Inl ValidationError
      else if urlparse_scheme entity_id \<notin> set accepted_entity_id_scheme
      then Inl (ValueError KeysMustBeEntityIDs)
      else validate_entries schema_valid urlparse_scheme rest)"

definition validate_allowed_idps ::
  "('cfg \<Rightarrow> bool) \<Rightarrow> (str \<Rightarrow> str) \<Rightarrow> (str \<times> 'cfg) list
     \<Rightarrow> error + (str \<times> 'cfg) list" where
  "validate_allowed_idps schema_valid urlparse_scheme idps =
     (if idps = [] then Inl (ValueError NoIdpsConfigured)
      else
        (case validate_entries schema_valid urlparse_scheme idps of
           Inl e \<Rightarrow> Inl e
         | Inr _ \<Rightarrow> Inr idps))"

section \<open>GenericOAuthenticator\<close>

text \<open>
  \<open>username_claim\<close> and \<open>claim_groups_key\<close> are either a str or a callable on the
  claims document. A callable is any Python function: it returns a value or raises.
\<close>

datatype selector =
    Key str
  | Callable "user_info \<Rightarrow> error + json"

definition generic_user_info_to_username :: "selector \<Rightarrow> user_info \<Rightarrow> error + json" where
  "generic_user_info_to_username self_username_claim user_info =
     (case self_username_claim of
        Callable f \<Rightarrow> f user_info
      | Key k \<Rightarrow>
          (let username = dict_get user_info k in
           if \<not> truthy username then Inl (ValueError (NoUsernameFound k user_info))
           else Inr username))"

text \<open>
  \<open>set(x)\<close>: the characters of a str, the elements of a list, the keys of a dict;
  \<open>TypeError\<close> on a value that is not iterable and on an element that is not
  hashable. \<open>True\<close> and \<open>1\<close> (\<open>False\<close> and \<open>0\<close>) are one element of a Python set,
  here the number.
\<close>

fun hashable :: "json \<Rightarrow> bool" where
  "hashable (JList xs) = False"
| "hashable (JObj kvs) = False"
| "hashable v = True"

fun hash_key :: "json \<Rightarrow> json" where
  "hash_key (JBool b) = JInt (if b then 1 else 0)"
| "hash_key v = v"

fun py_set :: "json \<Rightarrow> error + json set" where
  "py_set (JStr s) = Inr ((\<lambda>c. JStr [c]) ` set s)"
| "py_set (JList xs) = (if list_all hashable xs then Inr (hash_key ` set xs) else Inl TypeError)"
| "py_set (JObj kvs) = Inr ((\<lambda>kv. JStr (fst kv)) ` set kvs)"
| "py_set v = Inl TypeError"

text \<open>
  \<open>reduce(dict.get, keys, user_info)\<close>: \<open>dict.get(obj, key)\<close> raises \<open>TypeError\<close>
  when \<open>obj\<close> is not a dict and gives \<open>None\<close> when the key is absent.
\<close>

fun dict_get_unbound :: "json \<Rightarrow> str \<Rightarrow> error + json" where
  "dict_get_unbound (JObj kvs) k = Inr (dict_get kvs k)"
| "dict_get_unbound v k = Inl TypeError"

fun reduce_dict_get :: "str list \<Rightarrow> json \<Rightarrow> error + json" where
  "reduce_dict_get [] acc = Inr acc"
| "reduce_dict_get (k # ks) acc =
     (case dict_get_unbound acc k of Inl e \<Rightarrow> Inl e | Inr v \<Rightarrow> reduce_dict_get ks v)"

text \<open>\<open>try: ... except TypeError: return set()\<close>; any other exception goes on.\<close>

definition except_TypeError :: "error + json set \<Rightarrow> error + json set" where
  "except_TypeError r = (case r of Inl e \<Rightarrow> (if e = TypeError then Inr {} else Inl e) | Inr s \<Rightarrow> Inr s)"

definition get_user_groups :: "selector \<Rightarrow> user_info \<Rightarrow> error + json set" where
  "get_user_groups claim_groups_key user_info =
     (case claim_groups_key of
        Callable f \<Rightarrow> (case f user_info of Inl e \<Rightarrow> Inl e | Inr v \<Rightarrow> py_set v)
      | Key k \<Rightarrow>
          except_TypeError
            (case reduce_dict_get (split_sep (of_char CHR ''.'') k) (JObj user_info) of
               Inl e \<Rightarrow> Inl e
             | Inr v \<Rightarrow> py_set v))"

text \<open>
  The extractor as the specification words it, for comparison with the code: the
  path is resolved by descending nested mappings key by key, and the result is
  missing (\<open>None\<close> here) the instant a level is not a mapping or lacks the key.
\<close>

fun spec_extract :: "json \<Rightarrow> str list \<Rightarrow> json option" where
  "spec_extract v [] = Some v"
| "spec_extract (JObj kvs) (k # ks) =
     (case map_of kvs k of None \<Rightarrow> None | Some w \<Rightarrow> spec_extract w ks)"
| "spec_extract v (k # ks) = None"

text \<open>
  \<open>any(user_groups & groups)\<close> for a configured \<open>Set(Unicode())\<close>: some element of
  the intersection is truthy.
\<close>

definition any_common :: "json set \<Rightarrow> str set \<Rightarrow> bool" where
  "any_common user_groups groups = (\<exists>g \<in> user_groups \<inter> JStr ` groups. truthy g)"

definition update_auth_model :: "selector \<Rightarrow> str set \<Rightarrow> auth_model \<Rightarrow> error + auth_model" where
  "update_auth_model claim_groups_key admin_groups auth_model =
     (if admin auth_model = Some True then Inr auth_model
      else if admin_groups \<noteq> {} then
        (case get_user_groups claim_groups_key (auth_state auth_model) of
           Inl e \<Rightarrow> Inl e
         | Inr user_groups \<Rightarrow>
             Inr (auth_model\<lparr>admin := Some (any_common user_groups admin_groups)\<rparr>))
      else Inr auth_model)"

definition generic_check_allowed ::
  "bool \<Rightarrow> selector \<Rightarrow> str set \<Rightarrow> auth_model \<Rightarrow> error + bool" where
  "generic_check_allowed base_allowed claim_groups_key allowed_groups auth_model =
     (if base_allowed then Inr True
      else if allowed_groups \<noteq> {} then
        (case get_user_groups claim_groups_key (auth_state auth_model) of
           Inl e \<Rightarrow> Inl e
         | Inr user_groups \<Rightarrow>
             if any_common user_groups allowed_groups then Inr True else Inr False)
      else Inr False)"

section \<open>Example configurations\<close>

text \<open>
  The three providers of the help text of \<open>allowed_idps\<close>: one strips a domain,
  one adds a prefix, one restricts the login to two domains.
\<close>

definition example_allowed_idps :: allowed_idps where
  "example_allowed_idps =
     [(ascii ''https://idpz.utorauth.utoronto.ca/shibboleth'',
       \<lparr>username_derivation = Some \<lparr>username_claim = Some (ascii ''email''),
          action = Some (ascii ''strip_idp_domain''), domain = Some (ascii ''utoronto.ca''),
          prefix = None\<rparr>,
        allowed_domains = None\<rparr>),
      (ascii ''https://github.com/login/oauth/authorize'',
       \<lparr>username_derivation = Some \<lparr>username_claim = Some (ascii ''username''),
          action = Some (ascii ''prefix''), domain = None, prefix = Some (ascii ''gh'')\<rparr>,
        allowed_domains = None\<rparr>),
      (ascii ''http://google.com/accounts/o8/id'',
       \<lparr>username_derivation = Some \<lparr>username_claim = Some (ascii ''username''),
          action = None, domain = None, prefix = None\<rparr>,
        allowed_domains = Some [ascii ''uni.edu'', ascii ''something.org'']\<rparr>)]"

text \<open>A provider whose allowed domain is written with a capital letter.\<close>

definition mixed_case_allowed_idps :: allowed_idps where
  "mixed_case_allowed_idps =
     [(ascii ''http://google.com/accounts/o8/id'',
       \<lparr>username_derivation = Some \<lparr>username_claim = Some (ascii ''email''),
          action = None, domain = None, prefix = None\<rparr>,
        allowed_domains = Some [ascii ''Uni.edu'']\<rparr>)]"

text \<open>
  Two characters outside ASCII: U+0130, the capital I with a dot above, and
  U+0307, the combining dot above. \<open>str.lower\<close> turns the first into the two
  code points \<open>i\<close>, U+0307.
\<close>

definition capital_I_with_dot :: codepoint where
  "capital_I_with_dot = 304"

definition combining_dot_above :: codepoint where
  "combining_dot_above = 775"

text \<open>
  A provider that strips the domain \<open>i\<close> U+0307 \<open>.edu\<close>, written in lower case,
  and a user of that provider whose address has the domain in upper case,
  \<open>alice@\<close> U+0130 \<open>.edu\<close>.
\<close>

definition dotted_domain :: str where
  "dotted_domain = ascii ''i'' @ [combining_dot_above] @ ascii ''.edu''"

definition dotted_allowed_idps :: allowed_idps where
  "dotted_allowed_idps =
     [(ascii ''https://idp.example.edu/shibboleth'',
       \<lparr>username_derivation = Some \<lparr>username_claim = Some (ascii ''email''),
          action = Some (ascii ''strip_idp_domain''), domain = Some dotted_domain,
          prefix = None\<rparr>,
        allowed_domains = None\<rparr>)]"

definition dotted_user :: str where
  "dotted_user = ascii ''alice@'' @ [capital_I_with_dot] @ ascii ''.edu''"

text \<open>
  A stand-in for \<open>str.lower\<close> in the examples. It is \<open>str.lower\<close> on a text whose
  characters are below U+0100 or are U+0130: there the letters \<open>A\<close> to \<open>Z\<close> and
  the capital letters of Latin-1 move up by 32 and U+0130 becomes two code points.
  It leaves every other character alone, which \<open>str.lower\<close> does not.
\<close>

definition sample_lower_codepoint :: "codepoint \<Rightarrow> str" where
  "sample_lower_codepoint c =
     (if (65 \<le> c \<and> c \<le> 90) \<or> (192 \<le> c \<and> c \<le> 214) \<or> (216 \<le> c \<and> c \<le> 222) then [c + 32]
      else if c = capital_I_with_dot then [105, combining_dot_above]
      else [c])"

definition sample_lower :: "str \<Rightarrow> str" where
  "sample_lower s = concat (map sample_lower_codepoint s)"

text \<open>
  A stand-in for \<open>urlparse(entity_id).scheme\<close> on the example entity IDs: the
  lower-cased text before the first colon, empty when there is no colon.
\<close>

definition example_scheme :: "str \<Rightarrow> str" where
  "example_scheme url =
     (if of_char CHR '':'' \<in> set url
      then sample_lower (takeWhile (\<lambda>c. c \<noteq> of_char CHR '':'') url)
      else [])"

text \<open>The callable \<^verbatim>\<open>lambda user_info: user_info.get("nickname")\<close>.\<close>

definition nickname_claim :: selector where
  "nickname_claim = Callable (\<lambda>user_info. Inr (dict_get user_info (ascii ''nickname'')))"

section \<open>Text written in ASCII\<close>

lemma ascii_eq_iff [simp]: "ascii a = ascii b \<longleftrightarrow> a = b"
  by (simp add: ascii_def inj_map_eq_map inj_on_def)

lemma ascii_Nil_iff [simp]: "ascii s = [] \<longleftrightarrow> s = []"
  by (simp add: ascii_def)

lemma ascii_Nil [simp]: "ascii [] = []"
  by (simp add: ascii_def)

lemmas sample_lower_simps =
  sample_lower_def sample_lower_codepoint_def ascii_def
  capital_I_with_dot_def combining_dot_above_def

section \<open>Username derivation of the CILogon authenticator\<close>

lemma idp_username_derivation_found:
  assumes "map_of user_info (ascii ''idp'') = Some (JStr idp)"
    and "map_of idps idp = Some cfg"
    and "username_derivation cfg = Some ud"
  shows "idp_username_derivation idps user_info = Inr (JStr idp, ud)"
  using assms by (simp add: idp_username_derivation_def dict_getitem_def idps_getitem_def)

text \<open>
  What \<open>_get_processed_username\<close> does to a str \<open>raw\<close>, whatever \<open>str.lower\<close> is:
  no action, or an action that is neither of the two, leaves it; the prefix action
  puts the prefix and a colon before it; the strip action tests the lowered texts
  and, on a match, cuts as many characters as the suffix has before lowering.
\<close>

lemma get_processed_username_actions:
  assumes "map_of user_info (ascii ''idp'') = Some (JStr idp)"
    and "map_of idps idp = Some cfg"
    and "username_derivation cfg = Some ud"
  shows "((action ud = None \<or> action ud = Some (ascii ''none'')) \<longrightarrow>
            get_processed_username lower str_of idps (JStr raw) user_info = Inr (JStr raw))
       \<and> (action ud = Some (ascii ''strip_idp_domain'') \<and> domain ud = Some d \<longrightarrow>
            get_processed_username lower str_of idps (JStr raw) user_info
              = Inr (JStr (if endswith (lower raw) (lower (ascii ''@'' @ d))
                           then take (length raw - length (ascii ''@'' @ d)) raw else raw)))
       \<and> (action ud = Some (ascii ''prefix'') \<and> prefix ud = Some p \<longrightarrow>
            get_processed_username lower str_of idps (JStr raw) user_info
              = Inr (JStr (p @ ascii '':'' @ raw)))"
proof -
  note found = idp_username_derivation_found [OF assms]
  have none: "(action ud = None \<or> action ud = Some (ascii ''none'')) \<longrightarrow>
      get_processed_username lower str_of idps (JStr raw) user_info = Inr (JStr raw)"
    by (auto simp: get_processed_username_def found)
  have strip: "action ud = Some (ascii ''strip_idp_domain'') \<and> domain ud = Some d \<longrightarrow>
      get_processed_username lower str_of idps (JStr raw) user_info
        = Inr (JStr (if endswith (lower raw) (lower (ascii ''@'' @ d))
                     then take (length raw - length (ascii ''@'' @ d)) raw else raw))"
    by (simp add: get_processed_username_def found slice_to_neg_def ascii_def)
  have pre: "action ud = Some (ascii ''prefix'') \<and> prefix ud = Some p \<longrightarrow>
      get_processed_username lower str_of idps (JStr raw) user_info
        = Inr (JStr (p @ ascii '':'' @ raw))"
    by (simp add: get_processed_username_def found format_value_def)
  from none strip pre show ?thesis
    by simp
qed

text \<open>
  When lowering works character by character, one character for one, the
  characters cut are the suffix up to case.
\<close>

lemma strip_cuts_the_suffix_when_lower_keeps_length:
  assumes "\<And>s. lower s = map f s"
    and "endswith (lower raw) (lower suf)"
  shows "lower (drop (length raw - length suf) raw) = lower suf"
  using assms by (simp add: endswith_def drop_map)

text \<open>
  Claim C1 says that, under the strip action, a raw value that ends with
  \<open>"@" + domain\<close> up to case loses that suffix. The code tests
  \<^verbatim>\<open>username.lower().endswith(domain_suffix.lower())\<close> and then cuts
  \<^verbatim>\<open>len(domain_suffix)\<close> characters, the length before lowering. Lowering U+0130
  gives two code points, so for the configured domain \<open>i\<close> U+0307 \<open>.edu\<close> and the
  raw value \<open>alice@\<close> U+0130 \<open>.edu\<close> the test succeeds, the part of the raw value
  that matched is its last six characters, and the code cuts seven: the username
  is \<open>alic\<close>, not \<open>alice\<close>. This holds for every \<open>lower\<close> that lowers the two texts as
  \<open>str.lower\<close> does.
\<close>

theorem C1_strip_cuts_by_unlowered_length:
  assumes "lower dotted_user = ascii ''alice@i'' @ [combining_dot_above] @ ascii ''.edu''"
    and "lower (ascii ''@'' @ dotted_domain) = ascii ''@'' @ dotted_domain"
  shows "endswith (lower dotted_user) (lower (ascii ''@'' @ dotted_domain))
       \<and> get_processed_username lower str_of dotted_allowed_idps (JStr dotted_user)
           [(ascii ''idp'', JStr (ascii ''https://idp.example.edu/shibboleth''))]
         = Inr (JStr (ascii ''alic''))"
proof -
  have ends: "endswith (lower dotted_user) (lower (ascii ''@'' @ dotted_domain))"
    unfolding assms by (simp add: endswith_def dotted_domain_def ascii_def)
  have found: "idp_username_derivation dotted_allowed_idps
        [(ascii ''idp'', JStr (ascii ''https://idp.example.edu/shibboleth''))]
      = Inr (JStr (ascii ''https://idp.example.edu/shibboleth''),
             \<lparr>username_claim = Some (ascii ''email''),
              action = Some (ascii ''strip_idp_domain''), domain = Some dotted_domain,
              prefix = None\<rparr>)"
    by (simp add: idp_username_derivation_def dict_getitem_def idps_getitem_def
          dotted_allowed_idps_def)
  have cut: "slice_to_neg dotted_user (length (ascii ''@'' @ dotted_domain)) = ascii ''alic''"
    by (simp add: slice_to_neg_def dotted_user_def dotted_domain_def ascii_def)
  have "get_processed_username lower str_of dotted_allowed_idps (JStr dotted_user)
           [(ascii ''idp'', JStr (ascii ''https://idp.example.edu/shibboleth''))]
         = Inr (JStr (ascii ''alic''))"
    using ends cut by (simp add: get_processed_username_def found)
  with ends show ?thesis by simp
qed

text \<open>The theorem with the stand-in for \<open>str.lower\<close>, which lowers both texts so.\<close>

theorem C1_strip_cuts_by_unlowered_length_witness:
  "sample_lower dotted_user = ascii ''alice@i'' @ [combining_dot_above] @ ascii ''.edu''
   \<and> sample_lower (ascii ''@'' @ dotted_domain) = ascii ''@'' @ dotted_domain
   \<and> endswith (sample_lower dotted_user) (sample_lower (ascii ''@'' @ dotted_domain))
   \<and> get_processed_username sample_lower (\<lambda>v. []) dotted_allowed_idps (JStr dotted_user)
           [(ascii ''idp'', JStr (ascii ''https://idp.example.edu/shibboleth''))]
         = Inr (JStr (ascii ''alic''))"
proof -
  have a: "sample_lower dotted_user = ascii ''alice@i'' @ [combining_dot_above] @ ascii ''.edu''"
    by (simp add: sample_lower_simps dotted_user_def)
  have b: "sample_lower (ascii ''@'' @ dotted_domain) = ascii ''@'' @ dotted_domain"
    by (simp add: sample_lower_simps dotted_domain_def)
  from C1_strip_cuts_by_unlowered_length [of sample_lower "\<lambda>v. []", OF a b] a b
  show ?thesis by simp
qed

section \<open>Missing and empty username claims\<close>

text \<open>
  The CILogon authenticator and the str selector of the generic authenticator
  raise on a falsy claim value, and what they return is truthy.
\<close>

lemma unprocessed_username_truthy:
  "user_info_to_unprocessed_username idps user_info = Inr username \<Longrightarrow> truthy username"
  by (auto simp: user_info_to_unprocessed_username_def Let_def
           split: sum.splits option.splits if_splits prod.splits)

lemma unprocessed_username_missing:
  assumes "idp_username_derivation idps user_info = Inr (user_idp, ud)"
    and "username_claim ud = Some claim"
    and "\<not> truthy (dict_get user_info claim)"
  shows "user_info_to_unprocessed_username idps user_info
           = Inl (HTTPError 500 (UsernameClaimNotFound claim user_idp (map fst user_info)))"
  using assms by (simp add: user_info_to_unprocessed_username_def)

lemma generic_key_username_missing:
  "\<not> truthy (dict_get user_info k) \<Longrightarrow>
     generic_user_info_to_username (Key k) user_info = Inl (ValueError (NoUsernameFound k user_info))"
  by (simp add: generic_user_info_to_username_def)

lemma generic_key_username_truthy:
  "generic_user_info_to_username (Key k) user_info = Inr username \<Longrightarrow> truthy username"
  by (auto simp: generic_user_info_to_username_def Let_def split: if_splits)

text \<open>
  Claim C2 says that derivation fails on a missing or empty selected value for a
  callable selector as for a str one, and never returns an empty username. The
  generic authenticator tests the value only in the branch of the str selector.
  With the callable \<^verbatim>\<open>lambda user_info: user_info.get("nickname")\<close> as
  \<open>username_claim\<close>, the document \<^verbatim>\<open>{"nickname": ""}\<close> gives the username \<open>""\<close>
  and the empty document gives the username \<open>None\<close>; nothing is raised.
\<close>

theorem C2_callable_username_unchecked:
  "generic_user_info_to_username nickname_claim [(ascii ''nickname'', JStr (ascii ''''))]
     = Inr (JStr (ascii ''''))
   \<and> generic_user_info_to_username nickname_claim [] = Inr JNull"
  by (simp add: generic_user_info_to_username_def nickname_claim_def dict_get_def)

section \<open>The domain allow-list of the CILogon authenticator\<close>

lemma cilogon_check_allowed_base: "cilogon_check_allowed lower True idps auth_model = Inr True"
  by (simp add: cilogon_check_allowed_def)

text \<open>
  With a non-empty \<open>allowed_domains\<close> and a str username: no \<open>@\<close> raises
  \<open>IndexError\<close>; otherwise the text after the first \<open>@\<close> is lower-cased and looked
  up among the configured domains as they are written.
\<close>

lemma cilogon_check_allowed_domains:
  assumes "map_of (auth_state auth_model) (ascii ''idp'') = Some (JStr idp)"
    and "map_of idps idp = Some cfg"
    and "allowed_domains cfg = Some ds" and "ds \<noteq> []"
    and "user_info_to_unprocessed_username idps (auth_state auth_model) = Inr (JStr u)"
  shows "cilogon_check_allowed lower False idps auth_model =
           (if of_char CHR ''@'' \<notin> set u then Inl IndexError
            else if lower (tl (dropWhile (\<lambda>c. c \<noteq> of_char CHR ''@'') u)) \<in> set ds then Inr True
            else Inl (HTTPError 403
                   (DomainNotAllowed (lower (tl (dropWhile (\<lambda>c. c \<noteq> of_char CHR ''@'') u))))))"
  using assms
  by (simp add: cilogon_check_allowed_def dict_getitem_def idps_getitem_def split_once_def
        index1_def Let_def)

lemma cilogon_check_allowed_no_domains:
  assumes "map_of (auth_state auth_model) (ascii ''idp'') = Some (JStr idp)"
    and "map_of idps idp = Some cfg"
    and "allowed_domains cfg = None \<or> allowed_domains cfg = Some []"
  shows "cilogon_check_allowed lower False idps auth_model = Inr False"
  using assms
  by (auto simp: cilogon_check_allowed_def dict_getitem_def idps_getitem_def Let_def)

text \<open>
  Claim C3 says that the domain after the first \<open>@\<close> is compared with
  \<open>allowedDomains\<close> without regard to case, a match allowing the login. The code
  lower-cases the user's domain only. With \<^verbatim>\<open>allowed_domains = ["Uni.edu"]\<close> the
  user \<^verbatim>\<open>bob@Uni.edu\<close>, whose domain is the configured one letter for letter, is
  refused with the 403 error for the domain \<open>uni.edu\<close>. This holds for every
  \<open>lower\<close> that turns \<open>Uni.edu\<close> into \<open>uni.edu\<close>, as \<open>str.lower\<close> does.
\<close>

theorem C3_mixed_case_allowed_domain_denied:
  assumes "lower (ascii ''Uni.edu'') = ascii ''uni.edu''"
  shows "cilogon_check_allowed lower False mixed_case_allowed_idps
     \<lparr>admin = None,
      auth_state = [(ascii ''idp'', JStr (ascii ''http://google.com/accounts/o8/id'')),
                    (ascii ''email'', JStr (ascii ''bob@Uni.edu''))]\<rparr>
   = Inl (HTTPError 403 (DomainNotAllowed (ascii ''uni.edu'')))"
proof -
  have after_at: "index1 (split_once (of_char CHR ''@'') (ascii ''bob@Uni.edu''))
                    = Inr (ascii ''Uni.edu'')"
    by (simp add: split_once_def index1_def ascii_def)
  have unprocessed: "user_info_to_unprocessed_username mixed_case_allowed_idps
        [(ascii ''idp'', JStr (ascii ''http://google.com/accounts/o8/id'')),
         (ascii ''email'', JStr (ascii ''bob@Uni.edu''))] = Inr (JStr (ascii ''bob@Uni.edu''))"
    by (simp add: user_info_to_unprocessed_username_def idp_username_derivation_def
          dict_getitem_def idps_getitem_def dict_get_def mixed_case_allowed_idps_def)
  show ?thesis
    using after_at assms
    by (simp add: cilogon_check_allowed_def mixed_case_allowed_idps_def dict_getitem_def
          idps_getitem_def unprocessed [unfolded mixed_case_allowed_idps_def])
qed

text \<open>The theorem with the stand-in for \<open>str.lower\<close>.\<close>

theorem C3_mixed_case_allowed_domain_denied_witness:
  "sample_lower (ascii ''Uni.edu'') = ascii ''uni.edu''
   \<and> cilogon_check_allowed sample_lower False mixed_case_allowed_idps
       \<lparr>admin = None,
        auth_state = [(ascii ''idp'', JStr (ascii ''http://google.com/accounts/o8/id'')),
                      (ascii ''email'', JStr (ascii ''bob@Uni.edu''))]\<rparr>
     = Inl (HTTPError 403 (DomainNotAllowed (ascii ''uni.edu'')))"
proof -
  have a: "sample_lower (ascii ''Uni.edu'') = ascii ''uni.edu''"
    by (simp add: sample_lower_simps)
  from C3_mixed_case_allowed_domain_denied [of sample_lower, OF a] a
  show ?thesis by simp
qed

text \<open>
  Claim C4 says that a username without \<open>@\<close> makes the domain check step aside
  with no error. The code indexes the second part of the split unguarded: for the
  provider of the help text with two allowed domains and the username \<open>bob\<close>,
  \<open>check_allowed\<close> raises \<open>IndexError\<close>, whatever \<open>str.lower\<close> is.
\<close>

theorem C4_username_without_at_raises:
  "cilogon_check_allowed lower False example_allowed_idps
     \<lparr>admin = None,
      auth_state = [(ascii ''idp'', JStr (ascii ''http://google.com/accounts/o8/id'')),
                    (ascii ''username'', JStr (ascii ''bob''))]\<rparr>
   = Inl IndexError"
proof -
  have no_at: "index1 (split_once (of_char CHR ''@'') (ascii ''bob'')) = Inl IndexError"
    by (simp add: split_once_def index1_def ascii_def)
  have unprocessed: "user_info_to_unprocessed_username example_allowed_idps
        [(ascii ''idp'', JStr (ascii ''http://google.com/accounts/o8/id'')),
         (ascii ''username'', JStr (ascii ''bob''))] = Inr (JStr (ascii ''bob''))"
    by (simp add: user_info_to_unprocessed_username_def idp_username_derivation_def
          dict_getitem_def idps_getitem_def dict_get_def example_allowed_idps_def)
  show ?thesis
    using no_at
    by (simp add: cilogon_check_allowed_def example_allowed_idps_def dict_getitem_def
          idps_getitem_def unprocessed [unfolded example_allowed_idps_def])
qed

section \<open>Documents without a configured provider\<close>

text \<open>
  Claim C5. If the document has no \<open>idp\<close> claim, or its \<open>idp\<close> claim is a str that
  is not a key of \<open>allowed_idps\<close>, then \<open>user_info_to_username\<close> of the CILogon
  authenticator raises \<open>HTTPError\<close> with status 500; it returns no username.
\<close>

theorem C5_unresolvable_idp_aborts:
  assumes "map_of user_info (ascii ''idp'') = None
           \<or> (\<exists>s. map_of user_info (ascii ''idp'') = Some (JStr s) \<and> map_of idps s = None)"
  shows "\<exists>msg. cilogon_user_info_to_username lower str_of idps user_info
                 = Inl (HTTPError 500 msg)"
  using assms
  by (auto simp: cilogon_user_info_to_username_def dict_get_def Let_def)

theorem C5_unresolvable_idp_aborts_witness:
  "(\<exists>msg. cilogon_user_info_to_username sample_lower (\<lambda>v. []) example_allowed_idps
             [(ascii ''email'', JStr (ascii ''alice@utoronto.ca''))] = Inl (HTTPError 500 msg))
   \<and> (\<exists>msg. cilogon_user_info_to_username sample_lower (\<lambda>v. []) example_allowed_idps
             [(ascii ''idp'', JStr (ascii ''https://idp.elsewhere.org'')),
              (ascii ''email'', JStr (ascii ''alice@utoronto.ca''))]
               = Inl (HTTPError 500 msg))"
  using C5_unresolvable_idp_aborts
      [of "[(ascii ''email'', JStr (ascii ''alice@utoronto.ca''))]" example_allowed_idps
          sample_lower "\<lambda>v. []"]
    C5_unresolvable_idp_aborts
      [of "[(ascii ''idp'', JStr (ascii ''https://idp.elsewhere.org'')),
            (ascii ''email'', JStr (ascii ''alice@utoronto.ca''))]"
          example_allowed_idps sample_lower "\<lambda>v. []"]
  by (simp add: example_allowed_idps_def)

section \<open>Group membership of the generic authenticator\<close>

lemma reduce_dict_get_append:
  "reduce_dict_get (ks @ ks') d =
     (case reduce_dict_get ks d of Inl e \<Rightarrow> Inl e | Inr v \<Rightarrow> reduce_dict_get ks' v)"
  by (induction ks arbitrary: d) (auto split: sum.splits)

lemma dict_get_unbound_error: "dict_get_unbound v k = Inl e \<Longrightarrow> e = TypeError"
  by (cases v) auto

lemma reduce_dict_get_error: "reduce_dict_get ks d = Inl e \<Longrightarrow> e = TypeError"
  by (induction ks arbitrary: d) (auto split: sum.splits dest: dict_get_unbound_error)

lemma py_set_error: "py_set v = Inl e \<Longrightarrow> e = TypeError"
  by (cases v) (auto split: if_splits)

lemma reduce_dict_get_from_None:
  "reduce_dict_get ks JNull = (if ks = [] then Inr JNull else Inl TypeError)"
  by (cases ks) auto

lemma get_user_groups_Key:
  "get_user_groups (Key path) user_info =
     except_TypeError
       (case reduce_dict_get (split_sep (of_char CHR ''.'') path) (JObj user_info) of
          Inl e \<Rightarrow> Inl e | Inr v \<Rightarrow> py_set v)"
  by (simp add: get_user_groups_def)

text \<open>With a str as \<open>claim_groups_key\<close> the membership is always computed.\<close>

lemma get_user_groups_Key_total: "\<exists>G. get_user_groups (Key k) user_info = Inr G"
  by (auto simp: get_user_groups_def except_TypeError_def
           split: sum.splits dest: reduce_dict_get_error py_set_error)

text \<open>
  \<open>any\<close> over the intersection holds exactly when a configured group with a
  non-empty name is in the membership; it is the test for a non-empty
  intersection as long as the empty name is not among the configured groups.
\<close>

lemma any_common_iff: "any_common G A \<longleftrightarrow> (\<exists>g \<in> A. g \<noteq> [] \<and> JStr g \<in> G)"
proof
  assume "any_common G A"
  then obtain v where "v \<in> G" and "v \<in> JStr ` A" and "truthy v"
    by (auto simp: any_common_def)
  then show "\<exists>g \<in> A. g \<noteq> [] \<and> JStr g \<in> G"
    by auto
next
  assume "\<exists>g \<in> A. g \<noteq> [] \<and> JStr g \<in> G"
  then obtain g where "g \<in> A" and "g \<noteq> []" and "JStr g \<in> G"
    by blast
  then have "JStr g \<in> G \<inter> JStr ` A" and "truthy (JStr g)"
    by simp_all
  then show "any_common G A"
    unfolding any_common_def by blast
qed

lemma any_common_nonempty_names:
  "[] \<notin> A \<Longrightarrow> any_common G A \<longleftrightarrow> G \<inter> JStr ` A \<noteq> {}"
  unfolding any_common_iff by fastforce

section \<open>The allow decision of the generic authenticator\<close>

lemma generic_check_allowed_base:
  "generic_check_allowed True claim_groups_key allowed_groups auth_model = Inr True"
  by (simp add: generic_check_allowed_def)

text \<open>
  When the base check does not grant access and the membership \<open>G\<close> is computed,
  the decision is \<open>any\<close> over the intersection; with no allowed group it is a
  denial.
\<close>

lemma generic_check_allowed_groups:
  assumes "get_user_groups claim_groups_key (auth_state auth_model) = Inr G"
  shows "generic_check_allowed False claim_groups_key allowed_groups auth_model
           = Inr (any_common G allowed_groups)"
  using assms by (auto simp: generic_check_allowed_def any_common_def)

text \<open>
  Claim C6 says that a non-empty intersection of the configured allowed groups
  with the membership of the document allows the login. The code tests the
  intersection with \<open>any\<close>, which asks for a truthy element. With
  \<^verbatim>\<open>allowed_groups = {""}\<close> and the document \<^verbatim>\<open>{"groups": [""]}\<close> the membership is
  \<open>{""}\<close>, the intersection is not empty, and \<open>check_allowed\<close> returns \<open>False\<close>.
\<close>

theorem C6_empty_group_name_not_allowed:
  "get_user_groups (Key (ascii ''groups'')) [(ascii ''groups'', JList [JStr (ascii '''')])]
     = Inr {JStr (ascii '''')}
   \<and> {JStr (ascii '''')} \<inter> JStr ` {ascii ''''} \<noteq> {}
   \<and> generic_check_allowed False (Key (ascii ''groups'')) {ascii ''''}
        \<lparr>admin = None, auth_state = [(ascii ''groups'', JList [JStr (ascii '''')])]\<rparr>
       = Inr False"
  by (simp add: generic_check_allowed_def get_user_groups_def except_TypeError_def
        dict_get_def any_common_def ascii_def)

section \<open>The admin flag of the generic authenticator\<close>

lemma update_auth_model_admin_kept:
  "admin auth_model = Some True \<Longrightarrow>
     update_auth_model claim_groups_key admin_groups auth_model = Inr auth_model"
  by (simp add: update_auth_model_def)

lemma update_auth_model_no_admin_groups:
  "update_auth_model claim_groups_key {} auth_model = Inr auth_model"
  by (simp add: update_auth_model_def)

lemma update_auth_model_admin_groups:
  assumes "admin auth_model \<noteq> Some True" and "admin_groups \<noteq> {}"
    and "get_user_groups claim_groups_key (auth_state auth_model) = Inr G"
  shows "update_auth_model claim_groups_key admin_groups auth_model
           = Inr (auth_model\<lparr>admin := Some (any_common G admin_groups)\<rparr>)"
  using assms by (simp add: update_auth_model_def)

text \<open>
  Claim C7 says that, the prior flag not being true and admin groups being
  configured, the admin flag becomes exactly whether the membership meets the
  admin groups. The code computes the flag with \<open>any\<close> over the intersection. With
  \<^verbatim>\<open>admin_groups = {""}\<close>, a prior flag \<open>None\<close> and the document
  \<^verbatim>\<open>{"groups": [""]}\<close> the membership meets the admin groups and the flag is set to
  \<open>False\<close>.
\<close>

theorem C7_empty_group_name_not_admin:
  "get_user_groups (Key (ascii ''groups'')) [(ascii ''groups'', JList [JStr (ascii '''')])]
     = Inr {JStr (ascii '''')}
   \<and> {JStr (ascii '''')} \<inter> JStr ` {ascii ''''} \<noteq> {}
   \<and> update_auth_model (Key (ascii ''groups'')) {ascii ''''}
        \<lparr>admin = None, auth_state = [(ascii ''groups'', JList [JStr (ascii '''')])]\<rparr>
       = Inr \<lparr>admin = Some False,
              auth_state = [(ascii ''groups'', JList [JStr (ascii '''')])]\<rparr>"
  by (simp add: update_auth_model_def get_user_groups_def except_TypeError_def
        dict_get_def any_common_def ascii_def)

section \<open>Validation of the allowed providers\<close>

lemma validate_entries_ok_iff:
  "validate_entries schema_valid scheme idps = Inr () \<longleftrightarrow>
     (\<forall>(entity_id, cfg) \<in> set idps.
        schema_valid cfg \<and> scheme entity_id \<in> set accepted_entity_id_scheme)"
  by (induction idps) (auto split: if_splits)

lemma validate_entries_first_bad:
  assumes "\<forall>(entity_id, cfg) \<in> set before.
             schema_valid cfg \<and> scheme entity_id \<in> set accepted_entity_id_scheme"
    and "schema_valid c" and "scheme e \<notin> set accepted_entity_id_scheme"
  shows "validate_entries schema_valid scheme (before @ (e, c) # after)
           = Inl (ValueError KeysMustBeEntityIDs)"
  using assms by (induction before) auto

text \<open>
  Claim C8. Whatever the schema check and the scheme of an entity ID are:
  the empty \<open>allowed_idps\<close> is rejected with the \<open>ValueError\<close> that asks for one or
  more providers; a configuration with an entry whose scheme is not \<open>urn\<close>,
  \<open>https\<close> or \<open>http\<close> is rejected; when the entries before such an entry pass and
  the entry passes the schema, the rejection is the \<open>ValueError\<close> about entity IDs,
  whatever comes after it; and what validation returns, when it returns, is the
  whole non-empty configuration, every entry of which passed both checks.
\<close>

theorem C8_validate_allowed_idps:
  "validate_allowed_idps schema_valid scheme [] = Inl (ValueError NoIdpsConfigured)
   \<and> ((\<exists>(entity_id, cfg) \<in> set idps. scheme entity_id \<notin> set accepted_entity_id_scheme) \<longrightarrow>
        (\<exists>err. validate_allowed_idps schema_valid scheme idps = Inl err))
   \<and> ((\<forall>(entity_id, cfg) \<in> set before.
          schema_valid cfg \<and> scheme entity_id \<in> set accepted_entity_id_scheme)
        \<and> schema_valid c \<and> scheme e \<notin> set accepted_entity_id_scheme \<longrightarrow>
        validate_allowed_idps schema_valid scheme (before @ (e, c) # after)
          = Inl (ValueError KeysMustBeEntityIDs))
   \<and> (\<forall>registry. validate_allowed_idps schema_valid scheme idps = Inr registry \<longrightarrow>
        registry = idps \<and> idps \<noteq> []
        \<and> (\<forall>(entity_id, cfg) \<in> set idps.
              schema_valid cfg \<and> scheme entity_id \<in> set accepted_entity_id_scheme))"
proof -
  have empty: "validate_allowed_idps schema_valid scheme [] = Inl (ValueError NoIdpsConfigured)"
    by (simp add: validate_allowed_idps_def)
  have ok: "validate_allowed_idps schema_valid scheme idps = Inr registry \<Longrightarrow>
        registry = idps \<and> idps \<noteq> []
        \<and> (\<forall>(entity_id, cfg) \<in> set idps.
              schema_valid cfg \<and> scheme entity_id \<in> set accepted_entity_id_scheme)" for registry
    using validate_entries_ok_iff [of schema_valid scheme idps]
    by (auto simp: validate_allowed_idps_def split: if_splits sum.splits)
  have bad: "(\<exists>(entity_id, cfg) \<in> set idps. scheme entity_id \<notin> set accepted_entity_id_scheme) \<Longrightarrow>
        (\<exists>err. validate_allowed_idps schema_valid scheme idps = Inl err)"
  proof (cases "validate_allowed_idps schema_valid scheme idps")
    case (Inl err)
    then show ?thesis by blast
  next
    case (Inr registry)
    assume "\<exists>(entity_id, cfg) \<in> set idps. scheme entity_id \<notin> set accepted_entity_id_scheme"
    with ok [OF Inr] show ?thesis by fastforce
  qed
  have first: "(\<forall>(entity_id, cfg) \<in> set before.
          schema_valid cfg \<and> scheme entity_id \<in> set accepted_entity_id_scheme)
        \<and> schema_valid c \<and> scheme e \<notin> set accepted_entity_id_scheme \<Longrightarrow>
        validate_allowed_idps schema_valid scheme (before @ (e, c) # after)
          = Inl (ValueError KeysMustBeEntityIDs)"
    using validate_entries_first_bad [of before schema_valid scheme c e after]
    by (simp add: validate_allowed_idps_def)
  from empty ok bad first show ?thesis by blast
qed

text \<open>
  The theorem at a configuration whose second key is a domain name: it is
  rejected at that key, and the valid entry after it does not matter.
\<close>

theorem C8_validate_allowed_idps_witness:
  "validate_allowed_idps (\<lambda>cfg. True) example_scheme
      [(ascii ''https://github.com/login/oauth/authorize'', ()), (ascii ''github.com'', ()),
       (ascii ''urn:mace:incommon:uiuc.edu'', ())]
     = Inl (ValueError KeysMustBeEntityIDs)"
  using C8_validate_allowed_idps
    [of "\<lambda>cfg. True" example_scheme
        "[(ascii ''https://github.com/login/oauth/authorize'', ()), (ascii ''github.com'', ()),
          (ascii ''urn:mace:incommon:uiuc.edu'', ())]"
        "[(ascii ''https://github.com/login/oauth/authorize'', ())]" "()" "ascii ''github.com''"
        "[(ascii ''urn:mace:incommon:uiuc.edu'', ())]"]
  by (simp add: example_scheme_def accepted_entity_id_scheme_def sample_lower_simps)

section \<open>Extraction along a dotted path\<close>

text \<open>
  The descent of the code against the extractor of the specification: where the
  specification finds a value the descent returns it, and where the specification
  says missing the descent raises \<open>TypeError\<close> or ends in \<open>None\<close>.
\<close>

lemma reduce_dict_get_present:
  "spec_extract d ks = Some v \<Longrightarrow> reduce_dict_get ks d = Inr v"
  by (induction d ks rule: spec_extract.induct) (auto simp: dict_get_def split: option.splits)

lemma reduce_dict_get_missing:
  "spec_extract d ks = None \<Longrightarrow>
     reduce_dict_get ks d = Inl TypeError \<or> reduce_dict_get ks d = Inr JNull"
  by (induction d ks rule: spec_extract.induct)
     (auto simp: dict_get_def reduce_dict_get_from_None split: option.splits)

lemma py_set_list_of_str: "py_set (JList (map JStr gs)) = Inr (JStr ` set gs)"
proof -
  have "list_all hashable (map JStr gs)"
    by (induction gs) auto
  moreover have "hash_key ` set (map JStr gs) = JStr ` set gs"
    by (induction gs) auto
  ultimately show ?thesis by simp
qed

text \<open>
  Claim C9 says that extraction along a dotted path returns a distinguished
  missing outcome, and no substitute value, as soon as a level is not a mapping
  or a key is absent. \<open>get_user_groups\<close> has no such outcome: it catches the
  \<open>TypeError\<close> and returns the empty set. For the path \<open>permissions.groups\<close> the
  specification's extractor says missing on the empty document and finds the
  empty list on \<^verbatim>\<open>{"permissions": {"groups": []}}\<close>, and the code returns the same
  empty set for both.
\<close>

theorem C9_missing_not_distinguished:
  "spec_extract (JObj []) (split_sep (of_char CHR ''.'') (ascii ''permissions.groups'')) = None
   \<and> spec_extract (JObj [(ascii ''permissions'', JObj [(ascii ''groups'', JList [])])])
        (split_sep (of_char CHR ''.'') (ascii ''permissions.groups'')) = Some (JList [])
   \<and> get_user_groups (Key (ascii ''permissions.groups'')) [] = Inr {}
   \<and> get_user_groups (Key (ascii ''permissions.groups''))
        [(ascii ''permissions'', JObj [(ascii ''groups'', JList [])])] = Inr {}"
  by (simp add: get_user_groups_def except_TypeError_def dict_get_def ascii_def)

text \<open>
  Claim C9 as the code has it. The descent goes key by key and agrees with the
  extractor of the specification. When a level is not a mapping or a key is
  absent, the descent raises \<open>TypeError\<close> or ends in \<open>None\<close>, and
  \<open>get_user_groups\<close> returns the empty set, the value it also returns for a
  present empty list. When every key is present and leads to the value \<open>v\<close>, the
  descent returns \<open>v\<close> and \<open>get_user_groups\<close> returns \<open>set(v)\<close>, or the empty set
  when \<open>set(v)\<close> raises \<open>TypeError\<close>; for a list of strs that is the set of those
  strs.
\<close>

theorem C9_extraction_as_coded:
  "(spec_extract (JObj user_info) (split_sep (of_char CHR ''.'') path) = None \<longrightarrow>
      (reduce_dict_get (split_sep (of_char CHR ''.'') path) (JObj user_info) = Inl TypeError
       \<or> reduce_dict_get (split_sep (of_char CHR ''.'') path) (JObj user_info) = Inr JNull)
      \<and> get_user_groups (Key path) user_info = Inr {})
   \<and> (\<forall>v. spec_extract (JObj user_info) (split_sep (of_char CHR ''.'') path) = Some v \<longrightarrow>
      reduce_dict_get (split_sep (of_char CHR ''.'') path) (JObj user_info) = Inr v
      \<and> get_user_groups (Key path) user_info = except_TypeError (py_set v))
   \<and> (\<forall>gs. spec_extract (JObj user_info) (split_sep (of_char CHR ''.'') path)
              = Some (JList (map JStr gs)) \<longrightarrow>
      get_user_groups (Key path) user_info = Inr (JStr ` set gs))"
proof -
  let ?keys = "split_sep (of_char CHR ''.'') path"
  have missing: "(reduce_dict_get ?keys (JObj user_info) = Inl TypeError
       \<or> reduce_dict_get ?keys (JObj user_info) = Inr JNull)
      \<and> get_user_groups (Key path) user_info = Inr {}"
    if "spec_extract (JObj user_info) ?keys = None"
    using reduce_dict_get_missing [OF that]
    by (auto simp: get_user_groups_Key except_TypeError_def)
  have present: "reduce_dict_get ?keys (JObj user_info) = Inr v
      \<and> get_user_groups (Key path) user_info = except_TypeError (py_set v)"
    if "spec_extract (JObj user_info) ?keys = Some v" for v
    using reduce_dict_get_present [OF that]
    by (simp add: get_user_groups_Key)
  have strs: "get_user_groups (Key path) user_info = Inr (JStr ` set gs)"
    if "spec_extract (JObj user_info) ?keys = Some (JList (map JStr gs))" for gs
    using present [OF that]
    by (simp only: py_set_list_of_str except_TypeError_def sum.case)
  from missing present strs show ?thesis by blast
qed

text \<open>
  The theorem for the path \<open>permissions.groups\<close>: on a document whose
  \<open>permissions\<close> is a str, on one without \<open>permissions\<close>, and on one that holds
  the groups \<open>staff\<close> and \<open>alumni\<close> there.
\<close>

theorem C9_extraction_as_coded_witness:
  "get_user_groups (Key (ascii ''permissions.groups''))
       [(ascii ''permissions'', JStr (ascii ''staff''))] = Inr {}
   \<and> get_user_groups (Key (ascii ''permissions.groups''))
       [(ascii ''groups'', JList [JStr (ascii ''staff'')])] = Inr {}
   \<and> get_user_groups (Key (ascii ''permissions.groups''))
       [(ascii ''permissions'',
         JObj [(ascii ''groups'', JList [JStr (ascii ''staff''), JStr (ascii ''alumni'')])])]
     = Inr {JStr (ascii ''staff''), JStr (ascii ''alumni'')}"
  using C9_extraction_as_coded
      [of "[(ascii ''permissions'', JStr (ascii ''staff''))]" "ascii ''permissions.groups''"]
    C9_extraction_as_coded
      [of "[(ascii ''groups'', JList [JStr (ascii ''staff'')])]" "ascii ''permissions.groups''"]
    C9_extraction_as_coded
      [of "[(ascii ''permissions'',
             JObj [(ascii ''groups'', JList [JStr (ascii ''staff''), JStr (ascii ''alumni'')])])]"
          "ascii ''permissions.groups''",
       THEN conjunct2, THEN conjunct2, THEN spec,
       of "[ascii ''staff'', ascii ''alumni'']"]
  by (simp add: ascii_def)

section \<open>A str as groups claim\<close>

text \<open>
  Claim C10. If the dotted \<open>claim_groups_key\<close> leads to a str \<open>s\<close>, then
  \<open>get_user_groups\<close> returns the set of the one-character strings of \<open>s\<close>, with
  no error. So if a character of \<open>s\<close> is, as a one-character name, among the
  allowed groups, \<open>check_allowed\<close> grants access where the base check did not; and
  if it is among the admin groups, \<open>update_auth_model\<close> leaves the admin flag
  \<open>True\<close>.
\<close>

theorem C10_string_groups_claim_is_split:
  assumes "reduce_dict_get (split_sep (of_char CHR ''.'') path) (JObj user_info) = Inr (JStr s)"
  shows "get_user_groups (Key path) user_info = Inr ((\<lambda>c. JStr [c]) ` set s)
       \<and> (\<forall>c \<in> set s. [c] \<in> allowed_groups \<longrightarrow>
            generic_check_allowed False (Key path) allowed_groups
              \<lparr>admin = a, auth_state = user_info\<rparr> = Inr True)
       \<and> (\<forall>c \<in> set s. [c] \<in> admin_groups \<longrightarrow>
            (\<exists>m. update_auth_model (Key path) admin_groups
                    \<lparr>admin = a, auth_state = user_info\<rparr> = Inr m
                 \<and> admin m = Some True))"
proof -
  let ?G = "(\<lambda>c. JStr [c]) ` set s"
  have groups: "get_user_groups (Key path) user_info = Inr ?G"
    using assms by (simp add: get_user_groups_Key except_TypeError_def)
  have common: "any_common ?G A" if "c \<in> set s" and "[c] \<in> A" for c A
    unfolding any_common_iff using that by auto
  have allowed: "generic_check_allowed False (Key path) allowed_groups
              \<lparr>admin = a, auth_state = user_info\<rparr> = Inr True"
    if "c \<in> set s" and "[c] \<in> allowed_groups" for c
    using generic_check_allowed_groups
            [of "Key path" "\<lparr>admin = a, auth_state = user_info\<rparr>" ?G allowed_groups]
          groups common [OF that]
    by simp
  have adm: "\<exists>m. update_auth_model (Key path) admin_groups
                    \<lparr>admin = a, auth_state = user_info\<rparr> = Inr m
                 \<and> admin m = Some True"
    if "c \<in> set s" and "[c] \<in> admin_groups" for c
  proof (cases "a = Some True")
    case True
    then show ?thesis by (simp add: update_auth_model_def)
  next
    case False
    moreover have "admin_groups \<noteq> {}" using that by blast
    ultimately show ?thesis
      using groups common [OF that] by (simp add: update_auth_model_def)
  qed
  from groups allowed adm show ?thesis by blast
qed

text \<open>
  The theorem at the groups claim \<open>"staff"\<close>: the membership is its four
  letters, the allowed group \<open>t\<close> grants access, the admin group \<open>a\<close> grants admin.
\<close>

theorem C10_string_groups_claim_is_split_witness:
  "get_user_groups (Key (ascii ''groups'')) [(ascii ''groups'', JStr (ascii ''staff''))]
     = Inr {JStr (ascii ''s''), JStr (ascii ''t''), JStr (ascii ''a''), JStr (ascii ''f'')}
   \<and> generic_check_allowed False (Key (ascii ''groups'')) {ascii ''t'', ascii ''faculty''}
        \<lparr>admin = None, auth_state = [(ascii ''groups'', JStr (ascii ''staff''))]\<rparr> = Inr True
   \<and> (\<exists>m. update_auth_model (Key (ascii ''groups'')) {ascii ''a''}
             \<lparr>admin = Some False, auth_state = [(ascii ''groups'', JStr (ascii ''staff''))]\<rparr>
               = Inr m
          \<and> admin m = Some True)"
  using C10_string_groups_claim_is_split
      [of "ascii ''groups''" "[(ascii ''groups'', JStr (ascii ''staff''))]" "ascii ''staff''"
          "{ascii ''t'', ascii ''faculty''}" None "{ascii ''a''}"]
    C10_string_groups_claim_is_split
      [of "ascii ''groups''" "[(ascii ''groups'', JStr (ascii ''staff''))]" "ascii ''staff''"
          "{ascii ''t'', ascii ''faculty''}" "Some False" "{ascii ''a''}"]
  by (simp add: dict_get_def insert_commute ascii_def)

end
